theory Spec2Isabelle
  imports Main "HOL-Library.AList"
begin

section \<open>Python values and builtins used by vpcctl.py\<close>

text \<open>
  Exceptions are values: a Python expression that may raise is modelled by a function into
  \<open>py_exn + 'a\<close>, with \<open>Inl\<close> for the raised exception.
\<close>

datatype py_exn = ValueError | TypeError | AttributeError | OSError

subsection \<open>\<open>str.split(sep)\<close> with a one-character separator\<close>

text \<open>
  \<^verbatim>\<open>"".split("/") == [""]\<close>, \<^verbatim>\<open>"a//b".split("/") == ["a", "", "b"]\<close>: every occurrence of
  the separator ends one field, and the result is never empty.
\<close>

fun py_split :: "char \<Rightarrow> string \<Rightarrow> string list" where
  "py_split sep [] = [[]]"
| "py_split sep (c # cs) =
     (if c = sep then [] # py_split sep cs
      else (case py_split sep cs of
              [] \<Rightarrow> [[c]]
            | t # ts \<Rightarrow> (c # t) # ts))"

subsection \<open>\<open>int(s)\<close> on a string, base 10\<close>

text \<open>
  CPython's \<^verbatim>\<open>PyLong_FromString\<close>: skip leading whitespace (tab, LF, VT, FF, CR, space), take
  one optional sign, then decimal digits in which single underscores may stand between two
  digits, then skip trailing whitespace; anything left over, or no digit at all, raises
  ValueError. The model is that of ASCII strings: a \<open>char\<close> above 127 is rejected here, while
  CPython first maps Unicode decimal digits and spaces to ASCII. CPython 3.11 and later
  also raise ValueError on more than 4300 digits (\<^verbatim>\<open>sys.int_max_str_digits\<close>); the theorems
  that depend on either restriction say so in their hypotheses.
\<close>

definition py_isspace :: "char \<Rightarrow> bool" where
  "py_isspace c = (let n = (of_char c :: nat) in (9 \<le> n \<and> n \<le> 13) \<or> n = 32)"

definition py_isdigit :: "char \<Rightarrow> bool" where
  "py_isdigit c = (let n = (of_char c :: nat) in 48 \<le> n \<and> n \<le> 57)"

definition digit_value :: "char \<Rightarrow> int" where
  "digit_value c = int (of_char c) - 48"

text \<open>
  The digit scan, entered after a digit has been read: \<open>acc\<close> is the value so far. An
  underscore must be followed by a digit (no doubled and no trailing underscore). The scan
  stops at the first character that is neither, and returns the rest of the string.
\<close>

fun py_digits :: "int \<Rightarrow> string \<Rightarrow> py_exn + (int \<times> string)" where
  "py_digits acc [] = Inr (acc, [])"
| "py_digits acc (c # cs) =
     (if py_isdigit c then py_digits (10 * acc + digit_value c) cs
      else if c = CHR ''_'' then
        (case cs of
           [] \<Rightarrow> Inl ValueError
         | d # ds \<Rightarrow>
             if py_isdigit d then py_digits (10 * acc + digit_value d) ds
             else Inl ValueError)
      else Inr (acc, c # cs))"

definition py_sign :: "string \<Rightarrow> bool \<times> string" where
  "py_sign s =
     (case s of
        [] \<Rightarrow> (False, [])
      | c # cs \<Rightarrow>
          if c = CHR ''+'' then (False, cs)
          else if c = CHR ''-'' then (True, cs)
          else (False, c # cs))"

definition py_int :: "string \<Rightarrow> py_exn + int" where
  "py_int s =
     (case py_sign (dropWhile py_isspace s) of
        (neg, body) \<Rightarrow>
          (case body of
             [] \<Rightarrow> Inl ValueError
           | d # ds \<Rightarrow>
               if \<not> py_isdigit d then Inl ValueError
               else (case py_digits (digit_value d) ds of
                       Inl e \<Rightarrow> Inl e
                     | Inr (v, rest) \<Rightarrow>
                         if dropWhile py_isspace rest = [] then Inr (if neg then - v else v)
                         else Inl ValueError)))"

section \<open>The validator\<close>

text \<open>
  \<^verbatim>\<open>all(0 <= int(p) <= 255 for p in parts)\<close>: the generator is consumed from the left; the
  first part that does not parse raises, the first parsed value out of range ends the
  iteration with False, and the parts after it are never parsed.
\<close>

fun all_octets :: "string list \<Rightarrow> py_exn + bool" where
  "all_octets [] = Inr True"
| "all_octets (p # ps) =
     (case py_int p of
        Inl e \<Rightarrow> Inl e
      | Inr v \<Rightarrow> if 0 \<le> v \<and> v \<le> 255 then all_octets ps else Inr False)"

text \<open>
  The body of the \<^verbatim>\<open>try\<close> block of \<^verbatim>\<open>validate_cidr\<close>. The tuple assignment
  \<^verbatim>\<open>ip, mask = cidr.split('/')\<close> raises ValueError unless the split has exactly two fields.
\<close>

definition validate_cidr_try :: "string \<Rightarrow> py_exn + bool" where
  "validate_cidr_try cidr =
     (case py_split CHR ''/'' cidr of
        [ip, mask_str] \<Rightarrow>
          (case py_int mask_str of
             Inl e \<Rightarrow> Inl e
           | Inr mask_int \<Rightarrow>
               (let parts = py_split CHR ''.'' ip in
                if length parts \<noteq> 4 then Inr False
                else (case all_octets parts of
                        Inl e \<Rightarrow> Inl e
                      | Inr ok \<Rightarrow>
                          if \<not> ok then Inr False
                          else if \<not> (0 \<le> mask_int \<and> mask_int \<le> 32) then Inr False
                          else Inr True)))
      | _ \<Rightarrow> Inl ValueError)"

text \<open>The bare \<^verbatim>\<open>except:\<close> handler turns every exception of the body into False.\<close>

definition validate_cidr :: "string \<Rightarrow> bool" where
  "validate_cidr cidr =
     (case validate_cidr_try cidr of
        Inl e \<Rightarrow> False
      | Inr b \<Rightarrow> b)"

section \<open>The host: processes, persisted records and observable events\<close>

text \<open>
  \<^verbatim>\<open>subprocess.run\<close> returns a \<^verbatim>\<open>CompletedProcess\<close> object.
\<close>

record completed_process =
  returncode :: int
  stdout :: string
  stderr :: string

text \<open>
  The JSON document of one VPC, as \<^verbatim>\<open>create_vpc\<close> and \<^verbatim>\<open>create_subnet\<close> write it. The
  \<^verbatim>\<open>subnets\<close> dictionary keeps insertion order, so it is an association list.
\<close>

record subnet_info =
  sn_cidr :: string
  sn_type :: string
  sn_namespace :: string
  sn_veth_host :: string
  sn_veth_ns :: string

record vpc_config =
  cfg_name :: string
  cfg_cidr :: string
  cfg_bridge :: string
  cfg_subnets :: "(string \<times> subnet_info) list"

text \<open>
  What the program does to its environment, in the order it does it: a shell command handed
  to \<^verbatim>\<open>subprocess.run\<close>, a configuration file written, a configuration file removed.
  Log lines are not modelled.
\<close>

datatype event = Cmd string | Write string vpc_config | Unlink string

text \<open>
  What the kernel answers for a path at which there is no configuration file: the file can
  be created there (\<open>Reachable\<close>); a directory on the way to it is missing or is not a
  directory (\<open>NoDirectory\<close>, errno ENOENT or ENOTDIR); a component of the path is longer
  than a file name may be (\<open>NameTooLong\<close>, errno ENAMETOOLONG).
\<close>

datatype path_status = Reachable | NoDirectory | NameTooLong

text \<open>
  The host: the configuration files that exist, by path; the answer of the kernel for
  every other path; and the events so far. The program creates no directory besides the
  store directory and the answers do not change.
\<close>

record world =
  files :: "string \<rightharpoonup> vpc_config"
  status_of :: "string \<Rightarrow> path_status"
  events :: "event list"

text \<open>A method call returns a boolean or lets an exception escape to its caller.\<close>

datatype outcome = Returned bool | Raised py_exn

text \<open>
  The shell is a parameter: the outcome of a command may depend on everything that happened
  before. The kernel's state is not modelled beyond that; shell commands do not touch the
  configuration files.
\<close>

type_synonym shell = "world \<Rightarrow> string \<Rightarrow> completed_process"

text \<open>
  \<^verbatim>\<open>run_cmd\<close>: with \<^verbatim>\<open>check=True\<close> a non-zero exit status raises CalledProcessError, which
  is caught and turned into None; with \<^verbatim>\<open>check=False\<close> the CompletedProcess is returned
  whatever the exit status.
\<close>

definition run_cmd :: "shell \<Rightarrow> string \<Rightarrow> bool \<Rightarrow> world \<Rightarrow> completed_process option \<times> world" where
  "run_cmd sh cmd check w =
     (let result = sh w cmd;
          w' = w\<lparr>events := events w @ [Cmd cmd]\<rparr>
      in if check \<and> returncode result \<noteq> 0 then (None, w') else (Some result, w'))"

text \<open>A call of \<^verbatim>\<open>run_cmd\<close> whose result is discarded.\<close>

definition run :: "shell \<Rightarrow> string \<Rightarrow> bool \<Rightarrow> world \<Rightarrow> world" where
  "run sh cmd check w = snd (run_cmd sh cmd check w)"

text \<open>
  Python truth value of what \<^verbatim>\<open>run_cmd\<close> returns: None is false; a CompletedProcess
  defines neither \<^verbatim>\<open>__bool__\<close> nor \<^verbatim>\<open>__len__\<close>, so it is true whatever its exit status.
\<close>

definition truthy :: "completed_process option \<Rightarrow> bool" where
  "truthy r = (case r of None \<Rightarrow> False | Some p \<Rightarrow> True)"

subsection \<open>The path of a configuration file\<close>

text \<open>
  \<^verbatim>\<open>self.vpc_dir / f"{name}.json"\<close> with \<^verbatim>\<open>vpc_dir = Path("/tmp/vpc_configs")\<close>. pathlib
  splits the right operand at the slashes and drops empty components and the components
  \<open>.\<close> (it keeps \<open>..\<close>); a right operand that starts with a slash is absolute and
  replaces the directory, its root being \<open>//\<close> when it starts with exactly two slashes.
  The string of the path joins the components with single slashes.
\<close>

definition path_parts :: "string \<Rightarrow> string list" where
  "path_parts s = filter (\<lambda>x. x \<noteq> [] \<and> x \<noteq> ''.'') (py_split CHR ''/'' s)"

fun py_join :: "string list \<Rightarrow> string" where
  "py_join [] = []"
| "py_join [p] = p"
| "py_join (p # q # ps) = p @ ''/'' @ py_join (q # ps)"

definition path_root :: "string \<Rightarrow> string" where
  "path_root s = (if take 2 s = ''//'' \<and> take 3 s \<noteq> ''///'' then ''//'' else ''/'')"

definition config_file :: "string \<Rightarrow> string" where
  "config_file name =
     (let s = name @ ''.json'' in
      if take 1 s = ''/'' then path_root s @ py_join (path_parts s)
      else ''/'' @ py_join ([''tmp'', ''vpc_configs''] @ path_parts s))"

text \<open>
  A name that is one path component: ASCII characters other than NUL and the slash, and
  short enough for \<open>name.json\<close> to be a file name (at most 255 bytes). The configuration
  file of such a name lies directly in the store directory, and no other spelling of a
  plain name leads to the same file. Two paths that differ as strings are two files in this
  model; names with a component \<open>..\<close>, which the kernel resolves, are not plain.
\<close>

definition plain_name :: "string \<Rightarrow> bool" where
  "plain_name name =
     (list_all (\<lambda>c. c \<noteq> CHR ''/'' \<and> 0 < (of_char c :: nat) \<and> (of_char c :: nat) < 128) name
      \<and> length name \<le> 250)"

text \<open>
  The store directory is in place (\<^verbatim>\<open>__init__\<close> creates it): a file can be created in it
  under every plain name.
\<close>

definition store_ready :: "world \<Rightarrow> bool" where
  "store_ready w = (\<forall>name. plain_name name \<longrightarrow> status_of w (config_file name) = Reachable)"

subsection \<open>Access to the configuration files\<close>

text \<open>
  \<^verbatim>\<open>if not config_file.exists(): ... return False\<close> followed by
  \<^verbatim>\<open>with open(config_file) as f: config = json.load(f)\<close>. \<^verbatim>\<open>Path.exists()\<close> (CPython
  3.11) returns False on ENOENT and ENOTDIR and lets every other OSError escape, so a
  component that is too long raises. The result is the record, or None when there is no
  file, or the exception.
\<close>

definition load_config :: "string \<Rightarrow> world \<Rightarrow> py_exn + vpc_config option" where
  "load_config path w =
     (case files w path of
        Some config \<Rightarrow> Inr (Some config)
      | None \<Rightarrow>
          (case status_of w path of
             NameTooLong \<Rightarrow> Inl OSError
           | _ \<Rightarrow> Inr None))"

text \<open>
  \<^verbatim>\<open>with open(config_file, 'w') as f: json.dump(config, f, indent=2)\<close>. An existing file is
  overwritten. Where there is none, \<^verbatim>\<open>open\<close> creates it if it can, and otherwise raises
  FileNotFoundError, NotADirectoryError or the OSError of a name too long, all of class
  OSError; nothing is written then.
\<close>

definition written :: "string \<Rightarrow> vpc_config \<Rightarrow> world \<Rightarrow> world" where
  "written path config w =
     w\<lparr>files := (files w)(path \<mapsto> config), events := events w @ [Write path config]\<rparr>"

definition write_config :: "string \<Rightarrow> vpc_config \<Rightarrow> world \<Rightarrow> py_exn + world" where
  "write_config path config w =
     (case files w path of
        Some old \<Rightarrow> Inr (written path config w)
      | None \<Rightarrow>
          (case status_of w path of
             Reachable \<Rightarrow> Inr (written path config w)
           | _ \<Rightarrow> Inl OSError))"

text \<open>\<^verbatim>\<open>config_file.unlink()\<close> raises FileNotFoundError (an OSError) when there is no file.\<close>

definition removed :: "string \<Rightarrow> world \<Rightarrow> world" where
  "removed path w = w\<lparr>files := (files w)(path := None), events := events w @ [Unlink path]\<rparr>"

definition unlink :: "string \<Rightarrow> world \<Rightarrow> py_exn + world" where
  "unlink path w =
     (case files w path of
        Some old \<Rightarrow> Inr (removed path w)
      | None \<Rightarrow> Inl OSError)"

section \<open>VPC lifecycle\<close>

definition create_vpc :: "shell \<Rightarrow> string \<Rightarrow> string \<Rightarrow> world \<Rightarrow> outcome \<times> world" where
  "create_vpc sh name cidr w =
     (if \<not> validate_cidr cidr then (Returned False, w)
      else
        (let bridge_name = ''br-'' @ name;
             (r, w1) = run_cmd sh (''ip link show '' @ bridge_name) False w;
             w2 = (if \<not> truthy r
                   then run sh (''ip link set '' @ bridge_name @ '' up'') True
                          (run sh (''ip link add '' @ bridge_name @ '' type bridge'') True w1)
                   else w1);
             vpc_config = \<lparr>cfg_name = name, cfg_cidr = cidr, cfg_bridge = bridge_name,
                            cfg_subnets = []\<rparr>
         in (case write_config (config_file name) vpc_config w2 of
               Inl e \<Rightarrow> (Raised e, w2)
             | Inr w3 \<Rightarrow> (Returned True, w3))))"

section \<open>Subnet lifecycle\<close>

text \<open>\<^verbatim>\<open>cidr.split('/')[0][:-1] + "1"\<close>: the slice drops the last character.\<close>

definition gateway_ip :: "string \<Rightarrow> string" where
  "gateway_ip cidr = butlast (hd (py_split CHR ''/'' cidr)) @ ''1''"

definition create_subnet ::
  "shell \<Rightarrow> string \<Rightarrow> string \<Rightarrow> string \<Rightarrow> string \<Rightarrow> world \<Rightarrow> outcome \<times> world" where
  "create_subnet sh vpc_name subnet_name cidr subnet_type w =
     (case load_config (config_file vpc_name) w of
        Inl e \<Rightarrow> (Raised e, w)
      | Inr None \<Rightarrow> (Returned False, w)
      | Inr (Some config) \<Rightarrow>
          (let ns_name = ''ns-'' @ vpc_name @ ''-'' @ subnet_name;
               (r, w1) = run_cmd sh (''ip netns list | grep -q '' @ ns_name) False w;
               w2 = (if \<not> truthy r then run sh (''ip netns add '' @ ns_name) True w1 else w1);
               veth_host = ''veth-'' @ subnet_name @ ''-host'';
               veth_ns = ''veth-'' @ subnet_name @ ''-ns'';
               w3 = run sh (''ip link add '' @ veth_host @ '' type veth peer name '' @ veth_ns) True w2;
               w4 = run sh (''ip link set '' @ veth_ns @ '' netns '' @ ns_name) True w3;
               w5 = run sh (''ip link set '' @ veth_host @ '' master '' @ cfg_bridge config) True w4;
               w6 = run sh (''ip link set '' @ veth_host @ '' up'') True w5;
               w7 = run sh (''ip netns exec '' @ ns_name @ '' ip link set lo up'') True w6;
               w8 = run sh (''ip netns exec '' @ ns_name @ '' ip link set '' @ veth_ns @ '' up'') True w7;
               w9 = run sh (''ip netns exec '' @ ns_name @ '' ip addr add '' @ cidr @ '' dev '' @ veth_ns)
                      True w8;
               w10 = run sh (''ip netns exec '' @ ns_name @ '' ip route add default via '' @ gateway_ip cidr)
                       True w9;
               entry = \<lparr>sn_cidr = cidr, sn_type = subnet_type, sn_namespace = ns_name,
                        sn_veth_host = veth_host, sn_veth_ns = veth_ns\<rparr>;
               config' = config\<lparr>cfg_subnets := AList.update subnet_name entry (cfg_subnets config)\<rparr>
           in (case write_config (config_file vpc_name) config' w10 of
                 Inl e \<Rightarrow> (Raised e, w10)
               | Inr w11 \<Rightarrow> (Returned True, w11))))"

definition delete_subnet :: "shell \<Rightarrow> string \<Rightarrow> string \<Rightarrow> world \<Rightarrow> outcome \<times> world" where
  "delete_subnet sh vpc_name subnet_name w =
     (case load_config (config_file vpc_name) w of
        Inl e \<Rightarrow> (Raised e, w)
      | Inr None \<Rightarrow> (Returned False, w)
      | Inr (Some config) \<Rightarrow>
          (case map_of (cfg_subnets config) subnet_name of
             None \<Rightarrow> (Returned False, w)
           | Some subnet_info \<Rightarrow>
               (let w1 = run sh (''ip netns delete '' @ sn_namespace subnet_info) False w;
                    config' = config\<lparr>cfg_subnets := AList.delete subnet_name (cfg_subnets config)\<rparr>
                in (case write_config (config_file vpc_name) config' w1 of
                      Inl e \<Rightarrow> (Raised e, w1)
                    | Inr w2 \<Rightarrow> (Returned True, w2)))))"

text \<open>
  The loop of \<^verbatim>\<open>delete_vpc\<close>: \<^verbatim>\<open>delete_subnet\<close> is called for each subnet name in turn and
  what it returns is ignored; an exception it raises ends the loop and escapes.
\<close>

fun delete_subnets :: "shell \<Rightarrow> string \<Rightarrow> string list \<Rightarrow> world \<Rightarrow> py_exn option \<times> world" where
  "delete_subnets sh name [] w = (None, w)"
| "delete_subnets sh name (subnet_name # rest) w =
     (case delete_subnet sh name subnet_name w of
        (Raised e, w') \<Rightarrow> (Some e, w')
      | (Returned b, w') \<Rightarrow> delete_subnets sh name rest w')"

text \<open>
  \<^verbatim>\<open>delete_vpc\<close> iterates over the subnet names of the configuration it loaded at the start;
  the bridge name comes from that same loaded configuration.
\<close>

definition delete_vpc :: "shell \<Rightarrow> string \<Rightarrow> world \<Rightarrow> outcome \<times> world" where
  "delete_vpc sh name w =
     (case load_config (config_file name) w of
        Inl e \<Rightarrow> (Raised e, w)
      | Inr None \<Rightarrow> (Returned False, w)
      | Inr (Some config) \<Rightarrow>
          (case delete_subnets sh name (map fst (cfg_subnets config)) w of
             (Some e, w1) \<Rightarrow> (Raised e, w1)
           | (None, w1) \<Rightarrow>
               (let bridge_name = cfg_bridge config;
                    w2 = run sh (''ip link set '' @ bridge_name @ '' down'') False w1;
                    w3 = run sh (''ip link delete '' @ bridge_name @ '' type bridge'') False w2
                in (case unlink (config_file name) w3 of
                      Inl e \<Rightarrow> (Raised e, w3)
                    | Inr w4 \<Rightarrow> (Returned True, w4)))))"

section \<open>NAT, command execution and firewall\<close>

definition setup_nat :: "shell \<Rightarrow> string \<Rightarrow> string \<Rightarrow> string \<Rightarrow> world \<Rightarrow> outcome \<times> world" where
  "setup_nat sh vpc_name public_subnet host_interface w =
     (case load_config (config_file vpc_name) w of
        Inl e \<Rightarrow> (Raised e, w)
      | Inr None \<Rightarrow> (Returned False, w)
      | Inr (Some config) \<Rightarrow>
          (case map_of (cfg_subnets config) public_subnet of
             None \<Rightarrow> (Returned False, w)
           | Some subnet_info \<Rightarrow>
               (let w1 = run sh ''sysctl -w net.ipv4.ip_forward=1'' True w;
                    vpc_cidr = cfg_cidr config;
                    w2 = run sh (''iptables -t nat -A POSTROUTING -s '' @ vpc_cidr @ '' -o ''
                                   @ host_interface @ '' -j MASQUERADE'') True w1;
                    w3 = run sh (''iptables -A FORWARD -i '' @ cfg_bridge config @ '' -o ''
                                   @ host_interface @ '' -j ACCEPT'') True w2;
                    w4 = run sh (''iptables -A FORWARD -i '' @ host_interface @ '' -o ''
                                   @ cfg_bridge config
                                   @ '' -m state --state RELATED,ESTABLISHED -j ACCEPT'') True w3
                in (Returned True, w4))))"

text \<open>
  \<^verbatim>\<open>exec_command\<close> prints the captured output and returns whether the exit status is zero.
\<close>

definition exec_command :: "shell \<Rightarrow> string \<Rightarrow> string \<Rightarrow> string \<Rightarrow> world \<Rightarrow> outcome \<times> world" where
  "exec_command sh vpc_name subnet_name command w =
     (case load_config (config_file vpc_name) w of
        Inl e \<Rightarrow> (Raised e, w)
      | Inr None \<Rightarrow> (Returned False, w)
      | Inr (Some config) \<Rightarrow>
          (case map_of (cfg_subnets config) subnet_name of
             None \<Rightarrow> (Returned False, w)
           | Some subnet_info \<Rightarrow>
               (let ns_name = sn_namespace subnet_info;
                    full_cmd = ''ip netns exec '' @ ns_name @ '' '' @ command;
                    (result, w1) = run_cmd sh full_cmd False w
                in (Returned (case result of None \<Rightarrow> False | Some p \<Rightarrow> returncode p = 0), w1))))"

subsection \<open>The rules file\<close>

text \<open>
  A parsed JSON document (numbers with a fraction are left out). A rules file is absent,
  or cannot be opened, or does not parse, or holds a document.
\<close>

datatype json =
  JNull | JBool bool | JInt int | JStr string | JArr "json list" | JObj "(string \<times> json) list"

datatype file_state = Absent | Unreadable | Malformed | Content json

type_synonym rule_files = "string \<Rightarrow> file_state"

text \<open>
  \<^verbatim>\<open>x.get(key, default)\<close>: only a dictionary has the method; on any other value the
  attribute lookup raises AttributeError.
\<close>

definition dict_get :: "json \<Rightarrow> string \<Rightarrow> json \<Rightarrow> py_exn + json" where
  "dict_get x key dflt =
     (case x of
        JObj kv \<Rightarrow> Inr (case map_of kv key of None \<Rightarrow> dflt | Some v \<Rightarrow> v)
      | _ \<Rightarrow> Inl AttributeError)"

text \<open>
  \<^verbatim>\<open>for rule in x\<close>: a list yields its elements, a string its characters, a dictionary its
  keys; None, a boolean and a number are not iterable.
\<close>

fun py_iter :: "json \<Rightarrow> py_exn + json list" where
  "py_iter (JArr xs) = Inr xs"
| "py_iter (JStr s) = Inr (map (\<lambda>c. JStr [c]) s)"
| "py_iter (JObj kv) = Inr (map (\<lambda>kv. JStr (fst kv)) kv)"
| "py_iter x = Inl TypeError"

text \<open>
  One iteration of the loop over the ingress rules. \<open>fmt\<close> is Python's formatting of a
  value inside an f-string, a parameter of the model.
\<close>

definition ingress_cmd :: "(json \<Rightarrow> string) \<Rightarrow> string \<Rightarrow> json \<Rightarrow> py_exn + string" where
  "ingress_cmd fmt ns_name rule =
     (case dict_get rule ''port'' JNull of
        Inl e \<Rightarrow> Inl e
      | Inr port \<Rightarrow>
          (case dict_get rule ''protocol'' (JStr ''tcp'') of
             Inl e \<Rightarrow> Inl e
           | Inr protocol \<Rightarrow>
               (case dict_get rule ''action'' (JStr ''allow'') of
                  Inl e \<Rightarrow> Inl e
                | Inr action \<Rightarrow>
                    if action = JStr ''allow''
                    then Inr (''ip netns exec '' @ ns_name @ '' iptables -A INPUT -p ''
                                @ fmt protocol @ '' --dport '' @ fmt port @ '' -j ACCEPT'')
                    else Inr (''ip netns exec '' @ ns_name @ '' iptables -A INPUT -p ''
                                @ fmt protocol @ '' --dport '' @ fmt port @ '' -j DROP''))))"

fun ingress_cmds :: "(json \<Rightarrow> string) \<Rightarrow> string \<Rightarrow> json list \<Rightarrow> py_exn + string list" where
  "ingress_cmds fmt ns_name [] = Inr []"
| "ingress_cmds fmt ns_name (rule # rules) =
     (case ingress_cmd fmt ns_name rule of
        Inl e \<Rightarrow> Inl e
      | Inr c \<Rightarrow>
          (case ingress_cmds fmt ns_name rules of
             Inl e \<Rightarrow> Inl e
           | Inr cs \<Rightarrow> Inr (c # cs)))"

text \<open>The body of the \<^verbatim>\<open>try\<close> block: open, \<^verbatim>\<open>json.load\<close>, and the loop.\<close>

definition load_rules ::
  "(json \<Rightarrow> string) \<Rightarrow> rule_files \<Rightarrow> string \<Rightarrow> string \<Rightarrow> py_exn + string list" where
  "load_rules fmt rf ns_name rules_file =
     (case rf rules_file of
        Content rules \<Rightarrow>
          (case dict_get rules ''ingress'' (JArr []) of
             Inl e \<Rightarrow> Inl e
           | Inr ingress \<Rightarrow>
               (case py_iter ingress of
                  Inl e \<Rightarrow> Inl e
                | Inr rs \<Rightarrow> ingress_cmds fmt ns_name rs))
      | Malformed \<Rightarrow> Inl ValueError
      | _ \<Rightarrow> Inl OSError)"

text \<open>
  \<^verbatim>\<open>if rules_file and os.path.exists(rules_file)\<close>: no file name, an empty one, or the name
  of a file that does not exist adds no rule and is no error.
\<close>

definition custom_rules ::
  "(json \<Rightarrow> string) \<Rightarrow> rule_files \<Rightarrow> string \<Rightarrow> string option \<Rightarrow> py_exn + string list" where
  "custom_rules fmt rf ns_name rules_file =
     (case rules_file of
        None \<Rightarrow> Inr []
      | Some path \<Rightarrow>
          if path \<noteq> [] \<and> rf path \<noteq> Absent then load_rules fmt rf ns_name path
          else Inr [])"

definition firewall_base_cmds :: "string \<Rightarrow> string list" where
  "firewall_base_cmds ns_name =
     [''ip netns exec '' @ ns_name @ '' iptables -F'',
      ''ip netns exec '' @ ns_name @ '' iptables -P INPUT DROP'',
      ''ip netns exec '' @ ns_name @ '' iptables -P FORWARD DROP'',
      ''ip netns exec '' @ ns_name @ '' iptables -P OUTPUT ACCEPT'',
      ''ip netns exec '' @ ns_name @ '' iptables -A INPUT -m state --state ESTABLISHED,RELATED -j ACCEPT'',
      ''ip netns exec '' @ ns_name @ '' iptables -A INPUT -i lo -j ACCEPT'']"

definition firewall_default_cmds :: "string \<Rightarrow> string list" where
  "firewall_default_cmds ns_name =
     [''ip netns exec '' @ ns_name @ '' iptables -A INPUT -p tcp --dport 22 -j ACCEPT'',
      ''ip netns exec '' @ ns_name @ '' iptables -A INPUT -p tcp --dport 80 -j ACCEPT'']"

text \<open>\<^verbatim>\<open>for cmd in cmds: self.run_cmd(cmd)\<close>\<close>

definition run_all :: "shell \<Rightarrow> string list \<Rightarrow> world \<Rightarrow> world" where
  "run_all sh cmds w = fold (\<lambda>cmd w'. run sh cmd True w') cmds w"

text \<open>
  The list of commands is assembled first; nothing is executed before the final loop. An
  exception while the rules file is read returns False before that loop.
\<close>

definition apply_firewall ::
  "(json \<Rightarrow> string) \<Rightarrow> rule_files \<Rightarrow> shell \<Rightarrow> string \<Rightarrow> string \<Rightarrow> string option \<Rightarrow> world
     \<Rightarrow> outcome \<times> world" where
  "apply_firewall fmt rf sh vpc_name subnet_name rules_file w =
     (case load_config (config_file vpc_name) w of
        Inl e \<Rightarrow> (Raised e, w)
      | Inr None \<Rightarrow> (Returned False, w)
      | Inr (Some config) \<Rightarrow>
          (case map_of (cfg_subnets config) subnet_name of
             None \<Rightarrow> (Returned False, w)
           | Some subnet_info \<Rightarrow>
               (let ns_name = sn_namespace subnet_info;
                    cmds = firewall_base_cmds ns_name
                in (case custom_rules fmt rf ns_name rules_file of
                      Inl e \<Rightarrow> (Returned False, w)
                    | Inr custom \<Rightarrow>
                        (Returned True,
                         run_all sh (cmds @ custom @ firewall_default_cmds ns_name) w)))))"

section \<open>Reference predicates and sample hosts\<close>

subsection \<open>The two readings of a well-formed CIDR\<close>

text \<open>
  The specification's form: \<open>a.b.c.d/m\<close> where each of \<open>a\<close>, \<open>b\<close>, \<open>c\<close>, \<open>d\<close> is a
  non-empty string of decimal digits denoting a number in [0,255] and \<open>m\<close> one denoting a
  number in [0,32].
\<close>

definition decimal_value :: "string \<Rightarrow> int" where
  "decimal_value t = foldl (\<lambda>a c. 10 * a + digit_value c) 0 t"

definition decimal_token :: "int \<Rightarrow> string \<Rightarrow> bool" where
  "decimal_token hi t =
     (t \<noteq> [] \<and> list_all py_isdigit t \<and> 0 \<le> decimal_value t \<and> decimal_value t \<le> hi)"

definition spec_cidr_form :: "string \<Rightarrow> bool" where
  "spec_cidr_form s =
     (\<exists>a b c d m. s = a @ ''.'' @ b @ ''.'' @ c @ ''.'' @ d @ ''/'' @ m
        \<and> decimal_token 255 a \<and> decimal_token 255 b \<and> decimal_token 255 c
        \<and> decimal_token 255 d \<and> decimal_token 32 m)"

text \<open>
  The form the code accepts: the same shape, but a token is whatever \<^verbatim>\<open>int()\<close> parses
  (surrounding whitespace, a sign, underscores between digits), with its value in range.
\<close>

definition int_token :: "int \<Rightarrow> string \<Rightarrow> bool" where
  "int_token hi t = (case py_int t of Inl e \<Rightarrow> False | Inr v \<Rightarrow> 0 \<le> v \<and> v \<le> hi)"

definition python_cidr_form :: "string \<Rightarrow> bool" where
  "python_cidr_form s =
     (\<exists>a b c d m. s = a @ ''.'' @ b @ ''.'' @ c @ ''.'' @ d @ ''/'' @ m
        \<and> int_token 255 a \<and> int_token 255 b \<and> int_token 255 c
        \<and> int_token 255 d \<and> int_token 32 m)"

text \<open>The characters that can occur in a string accepted by \<^verbatim>\<open>int()\<close>.\<close>

definition int_char :: "char \<Rightarrow> bool" where
  "int_char c =
     (py_isspace c \<or> c = CHR ''+'' \<or> c = CHR ''-'' \<or> py_isdigit c \<or> c = CHR ''_'')"

subsection \<open>The expected trace of a cascading delete\<close>

text \<open>
  For each subnet of the record, in order: the namespace is deleted, then the record is
  written back without that subnet.
\<close>

fun deletion_events :: "string \<Rightarrow> vpc_config \<Rightarrow> (string \<times> subnet_info) list \<Rightarrow> event list" where
  "deletion_events path config [] = []"
| "deletion_events path config (entry # rest) =
     [Cmd (''ip netns delete '' @ sn_namespace (snd entry)),
      Write path (config\<lparr>cfg_subnets := rest\<rparr>)] @ deletion_events path config rest"

subsection \<open>Sample hosts\<close>

text \<open>A host on which every command exits with status 1: no bridge, no namespace.\<close>

definition failing_shell :: shell where
  "failing_shell w cmd = \<lparr>returncode = 1, stdout = [], stderr = []\<rparr>"

text \<open>
  The answers of a host on which the store directory exists and holds no directory: a
  path directly in it is reachable unless its last component is longer than 255 bytes, and
  a path through a component below it finds no directory there. The host is described no
  further: for any other path, and for a path through \<open>..\<close>, the answer is
  \<open>NoDirectory\<close>.
\<close>

definition fresh_status :: "string \<Rightarrow> path_status" where
  "fresh_status path =
     (case path_parts path of
        a # b # c # rest \<Rightarrow>
          if a = ''tmp'' \<and> b = ''vpc_configs'' then
            (if 255 < length c then NameTooLong
             else if rest = [] then Reachable
             else NoDirectory)
          else NoDirectory
      | _ \<Rightarrow> NoDirectory)"

definition empty_host :: world where
  "empty_host = \<lparr>files = Map.empty, status_of = fresh_status, events = []\<rparr>"

definition test_config :: vpc_config where
  "test_config =
     \<lparr>cfg_name = ''test'', cfg_cidr = ''10.1.0.0/16'', cfg_bridge = ''br-test'', cfg_subnets = []\<rparr>"

definition test_host :: world where
  "test_host =
     \<lparr>files = [config_file ''test'' \<mapsto> test_config], status_of = fresh_status, events = []\<rparr>"

definition web_info :: subnet_info where
  "web_info =
     \<lparr>sn_cidr = ''10.1.1.0/24'', sn_type = ''public'', sn_namespace = ''ns-test-web'',
      sn_veth_host = ''veth-web-host'', sn_veth_ns = ''veth-web-ns''\<rparr>"

definition db_info :: subnet_info where
  "db_info =
     \<lparr>sn_cidr = ''10.1.2.0/24'', sn_type = ''private'', sn_namespace = ''ns-test-db'',
      sn_veth_host = ''veth-db-host'', sn_veth_ns = ''veth-db-ns''\<rparr>"

definition web_config :: vpc_config where
  "web_config = test_config\<lparr>cfg_subnets := [(''web'', web_info), (''db'', db_info)]\<rparr>"

definition web_host :: world where
  "web_host =
     \<lparr>files = [config_file ''test'' \<mapsto> web_config], status_of = fresh_status, events = []\<rparr>"

text \<open>A name of 300 characters, too long for a file name.\<close>

definition long_name :: string where
  "long_name = replicate 300 CHR ''a''"

section \<open>Basic facts about the host operations\<close>

lemma events_run [simp]: "events (run sh cmd check w) = events w @ [Cmd cmd]"
  by (simp add: run_def run_cmd_def Let_def)

lemma files_run [simp]: "files (run sh cmd check w) = files w"
  by (simp add: run_def run_cmd_def Let_def)

lemma status_run [simp]: "status_of (run sh cmd check w) = status_of w"
  by (simp add: run_def run_cmd_def Let_def)

lemma run_cmd_unchecked: "run_cmd sh cmd False w = (Some (sh w cmd), run sh cmd False w)"
  by (simp add: run_def run_cmd_def Let_def)

lemma events_written [simp]:
  "events (written path config w) = events w @ [Write path config]"
  by (simp add: written_def)

lemma files_written [simp]:
  "files (written path config w) = (files w)(path \<mapsto> config)"
  by (simp add: written_def)

lemma status_written [simp]: "status_of (written path config w) = status_of w"
  by (simp add: written_def)

lemma events_removed [simp]: "events (removed path w) = events w @ [Unlink path]"
  by (simp add: removed_def)

lemma files_removed [simp]: "files (removed path w) = (files w)(path := None)"
  by (simp add: removed_def)

lemma events_run_all [simp]: "events (run_all sh cmds w) = events w @ map Cmd cmds"
  unfolding run_all_def by (induction cmds arbitrary: w) simp_all

lemma files_run_all [simp]: "files (run_all sh cmds w) = files w"
  unfolding run_all_def by (induction cmds arbitrary: w) simp_all

text \<open>
  With \<^verbatim>\<open>check=False\<close>, \<^verbatim>\<open>run_cmd\<close> returns an object, and an object is true: the test
  \<^verbatim>\<open>if not self.run_cmd(..., check=False)\<close> never succeeds, whatever the command reports.
\<close>

lemma truthy_unchecked: "truthy (fst (run_cmd sh cmd False w))"
  by (simp add: run_cmd_unchecked truthy_def)

text \<open>A file that exists is found, can be overwritten and can be removed.\<close>

lemma load_config_present: "files w path = Some config \<Longrightarrow> load_config path w = Inr (Some config)"
  by (simp add: load_config_def)

lemma write_config_present:
  "files w path = Some old \<Longrightarrow> write_config path config w = Inr (written path config w)"
  by (simp add: write_config_def)

lemma unlink_present: "files w path = Some old \<Longrightarrow> unlink path w = Inr (removed path w)"
  by (simp add: unlink_def)

text \<open>Where the kernel reports the path reachable, a missing file is reported missing and can be created.\<close>

lemma load_config_absent:
  "files w path = None \<Longrightarrow> status_of w path = Reachable \<Longrightarrow> load_config path w = Inr None"
  by (simp add: load_config_def)


subsection \<open>Plain names\<close>

lemma py_split_not_Nil [simp]: "py_split sep s \<noteq> []"
  by (induction s) (auto split: list.splits)

lemma py_split_single: "sep \<notin> set s \<Longrightarrow> py_split sep s = [s]"
  by (induction s) auto

lemma py_split_append:
  "sep \<notin> set a \<Longrightarrow> py_split sep (a @ sep # rest) = a # py_split sep rest"
  by (induction a) auto

lemma plain_name_no_slash: "plain_name name \<Longrightarrow> CHR ''/'' \<notin> set name"
  by (auto simp add: plain_name_def list_all_iff)

text \<open>The configuration file of a plain name lies directly in the store directory.\<close>

lemma config_file_plain:
  assumes "plain_name name"
  shows "config_file name = ''/tmp/vpc_configs/'' @ name @ ''.json''"
proof -
  have ns: "CHR ''/'' \<notin> set (name @ ''.json'')"
    using plain_name_no_slash [OF assms] by simp
  have parts: "path_parts (name @ ''.json'') = [name @ ''.json'']"
    unfolding path_parts_def py_split_single [OF ns] by simp
  have "take 1 (name @ ''.json'') \<noteq> ''/''"
    using ns by (cases name) auto
  then show ?thesis
    by (simp add: config_file_def parts Let_def)
qed

lemma path_parts_store:
  assumes "CHR ''/'' \<notin> set c" and "c \<noteq> []" and "c \<noteq> ''.''"
  shows "path_parts (''/tmp/vpc_configs/'' @ c) = [''tmp'', ''vpc_configs'', c]"
proof -
  have 1: "py_split CHR ''/'' (''/tmp/vpc_configs/'' @ c)
             = [] # py_split CHR ''/'' (''tmp/vpc_configs/'' @ c)"
    by simp
  have 2: "py_split CHR ''/'' (''tmp'' @ CHR ''/'' # (''vpc_configs/'' @ c))
             = ''tmp'' # py_split CHR ''/'' (''vpc_configs/'' @ c)"
    by (rule py_split_append) simp
  have 3: "py_split CHR ''/'' (''vpc_configs'' @ CHR ''/'' # c) = ''vpc_configs'' # py_split CHR ''/'' c"
    by (rule py_split_append) simp
  have "py_split CHR ''/'' (''/tmp/vpc_configs/'' @ c) = [[], ''tmp'', ''vpc_configs'', c]"
    using 1 2 3 py_split_single [OF assms(1)] by simp
  then show ?thesis
    using assms(2,3) by (simp add: path_parts_def)
qed

text \<open>On the sample hosts the store directory is in place.\<close>

lemma fresh_status_plain:
  assumes "plain_name name"
  shows "fresh_status (config_file name) = Reachable"
proof -
  let ?c = "name @ ''.json''"
  have "CHR ''/'' \<notin> set ?c" using plain_name_no_slash [OF assms] by simp
  moreover have "?c \<noteq> []" by simp
  moreover have "?c \<noteq> ''.''" by (cases name) auto
  ultimately have "path_parts (''/tmp/vpc_configs/'' @ ?c) = [''tmp'', ''vpc_configs'', ?c]"
    by (rule path_parts_store)
  moreover have "length ?c \<le> 255"
    using assms by (simp add: plain_name_def)
  ultimately show ?thesis
    by (simp add: config_file_plain [OF assms] fresh_status_def)
qed

lemma store_ready_fresh: "status_of w = fresh_status \<Longrightarrow> store_ready w"
  by (simp add: store_ready_def fresh_status_plain)

lemma store_ready_samples:
  "store_ready empty_host" "store_ready test_host" "store_ready web_host"
  by (simp_all add: store_ready_fresh empty_host_def test_host_def web_host_def)

lemma plain_name_samples: "plain_name ''test''" "plain_name ''prod''"
  by (simp_all add: plain_name_def)

lemma config_file_examples:
  "config_file ''test'' = ''/tmp/vpc_configs/test.json''"
  "config_file ''./test'' = ''/tmp/vpc_configs/test.json''"
  "config_file ''a/b'' = ''/tmp/vpc_configs/a/b.json''"
  "config_file ''a//b'' = ''/tmp/vpc_configs/a/b.json''"
  "config_file ''../x'' = ''/tmp/vpc_configs/../x.json''"
  "config_file ''/etc/x'' = ''/etc/x.json''"
  "config_file ''//x'' = ''//x.json''"
  "config_file ''///x'' = ''/x.json''"
  "config_file [] = ''/tmp/vpc_configs/.json''"
  by code_simp+

section \<open>Creating a VPC\<close>


lemma create_vpc_unwritable:
  assumes "validate_cidr cidr"
    and "write_config (config_file name)
           \<lparr>cfg_name = name, cfg_cidr = cidr, cfg_bridge = ''br-'' @ name, cfg_subnets = []\<rparr>
           (run sh (''ip link show br-'' @ name) False w) = Inl e"
  shows "create_vpc sh name cidr w = (Raised e, run sh (''ip link show br-'' @ name) False w)"
  using assms by (simp add: create_vpc_def run_cmd_unchecked truthy_def Let_def)

text \<open>
  C1. Specified: when bridge \<open>br-<name>\<close> does not exist, \<^verbatim>\<open>create_vpc\<close> issues the commands
  that create it and bring it up. The code does not: on a host where \<^verbatim>\<open>ip link show br-test\<close>
  exits with status 1, \<^verbatim>\<open>create_vpc("test", "10.1.0.0/16")\<close> returns True having run the
  query only; neither \<^verbatim>\<open>ip link add br-test type bridge\<close> nor \<^verbatim>\<open>ip link set br-test up\<close> is
  issued.
\<close>

theorem create_vpc_missing_bridge_not_created:
  "returncode (failing_shell empty_host ''ip link show br-test'') \<noteq> 0
   \<and> fst (create_vpc failing_shell ''test'' ''10.1.0.0/16'' empty_host) = Returned True
   \<and> events (snd (create_vpc failing_shell ''test'' ''10.1.0.0/16'' empty_host)) =
       [Cmd ''ip link show br-test'', Write ''/tmp/vpc_configs/test.json'' test_config]"
  by code_simp




section \<open>Creating a subnet\<close>

text \<open>
  For an existing VPC and any shell, \<^verbatim>\<open>create_subnet\<close> returns True after the namespace
  query, eight configuration commands and the write of the record.
\<close>

lemma create_subnet_found:
  assumes "files w (config_file vpc_name) = Some config"
  shows "fst (create_subnet sh vpc_name subnet_name cidr subnet_type w) = Returned True"
    and "events (snd (create_subnet sh vpc_name subnet_name cidr subnet_type w)) =
           events w @
           map Cmd
             [''ip netns list | grep -q ns-'' @ vpc_name @ ''-'' @ subnet_name,
              ''ip link add veth-'' @ subnet_name @ ''-host type veth peer name veth-''
                @ subnet_name @ ''-ns'',
              ''ip link set veth-'' @ subnet_name @ ''-ns netns ns-'' @ vpc_name @ ''-''
                @ subnet_name,
              ''ip link set veth-'' @ subnet_name @ ''-host master '' @ cfg_bridge config,
              ''ip link set veth-'' @ subnet_name @ ''-host up'',
              ''ip netns exec ns-'' @ vpc_name @ ''-'' @ subnet_name @ '' ip link set lo up'',
              ''ip netns exec ns-'' @ vpc_name @ ''-'' @ subnet_name @ '' ip link set veth-''
                @ subnet_name @ ''-ns up'',
              ''ip netns exec ns-'' @ vpc_name @ ''-'' @ subnet_name @ '' ip addr add '' @ cidr
                @ '' dev veth-'' @ subnet_name @ ''-ns'',
              ''ip netns exec ns-'' @ vpc_name @ ''-'' @ subnet_name
                @ '' ip route add default via '' @ gateway_ip cidr] @
           [Write (config_file vpc_name)
              (config\<lparr>cfg_subnets :=
                 AList.update subnet_name
                   \<lparr>sn_cidr = cidr, sn_type = subnet_type,
                    sn_namespace = ''ns-'' @ vpc_name @ ''-'' @ subnet_name,
                    sn_veth_host = ''veth-'' @ subnet_name @ ''-host'',
                    sn_veth_ns = ''veth-'' @ subnet_name @ ''-ns''\<rparr>
                   (cfg_subnets config)\<rparr>)]"
  using assms
  by (simp_all add: create_subnet_def load_config_present write_config_present
        run_cmd_unchecked truthy_def Let_def)

text \<open>
  C2. Specified: when namespace \<open>ns-<vpc>-<subnet>\<close> does not exist, \<^verbatim>\<open>create_subnet\<close>
  issues the command that creates it. The code does not: on a host where
  \<^verbatim>\<open>ip netns list | grep -q ns-test-web\<close> exits with status 1,
  \<^verbatim>\<open>create_subnet("test", "web", "10.1.1.0/24", "public")\<close> returns True and
  \<^verbatim>\<open>ip netns add ns-test-web\<close> is not among the commands it ran.
\<close>

theorem create_subnet_missing_namespace_not_created:
  "returncode (failing_shell test_host ''ip netns list | grep -q ns-test-web'') \<noteq> 0
   \<and> fst (create_subnet failing_shell ''test'' ''web'' ''10.1.1.0/24'' ''public'' test_host)
       = Returned True
   \<and> Cmd ''ip netns add ns-test-web''
       \<notin> set (events (snd (create_subnet failing_shell ''test'' ''web'' ''10.1.1.0/24''
                              ''public'' test_host)))"
  by code_simp

subsection \<open>The gateway address\<close>

text \<open>
  What the slice does: when the address part is \<open>pre\<close> followed by one more character,
  the gateway is \<open>pre\<close> followed by \<open>1\<close>. That is the address with its last octet
  replaced by 1 only if the last octet has a single digit.
\<close>

lemma gateway_ip_replaces_last_char:
  assumes "CHR ''/'' \<notin> set (pre @ [c])"
  shows "gateway_ip (pre @ [c] @ ''/'' @ m) = pre @ ''1''"
proof -
  have "py_split CHR ''/'' ((pre @ [c]) @ CHR ''/'' # m) = (pre @ [c]) # py_split CHR ''/'' m"
    using assms by (rule py_split_append)
  then show ?thesis
    by (simp add: gateway_ip_def)
qed

lemma gateway_ip_example: "gateway_ip ''10.0.1.0/24'' = ''10.0.1.1''"
  by code_simp

text \<open>
  C3. Specified: the gateway of the default route is the network address of the subnet
  CIDR with its last octet replaced by 1. The code drops one character, not one octet: for
  the CIDR \<open>10.0.1.10/24\<close>, whose network address is 10.0.1.0, the gateway it derives is
  \<open>10.0.1.11\<close>, not \<open>10.0.1.1\<close>, and that is the address of the route command it issues.
\<close>

theorem gateway_ip_drops_one_character:
  "gateway_ip ''10.0.1.10/24'' = ''10.0.1.11''
   \<and> Cmd ''ip netns exec ns-test-web ip route add default via 10.0.1.11''
       \<in> set (events (snd (create_subnet failing_shell ''test'' ''web'' ''10.0.1.10/24''
                              ''private'' test_host)))"
  by code_simp

section \<open>Deleting subnets and VPCs\<close>

lemma delete_head:
  assumes "distinct (map fst (entry # rest))"
  shows "AList.delete (fst entry) (entry # rest) = rest"
  using assms by (cases entry) (force simp: AList.delete_eq filter_id_conv)

lemma delete_subnet_head:
  assumes "files w (config_file name) = Some (config\<lparr>cfg_subnets := entry # rest\<rparr>)"
    and "distinct (map fst (entry # rest))"
  shows "delete_subnet sh name (fst entry) w =
           (Returned True,
            written (config_file name) (config\<lparr>cfg_subnets := rest\<rparr>)
              (run sh (''ip netns delete '' @ sn_namespace (snd entry)) False w))"
proof -
  have "AList.delete (fst entry) (entry # rest) = rest"
    using assms(2) by (rule delete_head)
  then show ?thesis
    using assms(1)
    by (cases entry)
       (simp add: delete_subnet_def load_config_present write_config_present Let_def)
qed

text \<open>
  The loop of \<^verbatim>\<open>delete_vpc\<close>. Each \<^verbatim>\<open>delete_subnet\<close> reads the record again, so the
  invariant is on the stored record: it holds the subnets not yet deleted. The keys of a
  dictionary are distinct. No call raises, since the file exists throughout.
\<close>

lemma delete_subnets_trace:
  assumes "distinct (map fst xs)"
    and "files w (config_file name) = Some (config\<lparr>cfg_subnets := xs\<rparr>)"
  shows "\<exists>w'. delete_subnets sh name (map fst xs) w = (None, w')
           \<and> events w' = events w @ deletion_events (config_file name) config xs
           \<and> files w' = (files w)(config_file name \<mapsto> config\<lparr>cfg_subnets := []\<rparr>)"
  using assms
proof (induction xs arbitrary: w)
  case Nil
  then show ?case by (simp add: fun_upd_idem)
next
  case (Cons entry rest)
  let ?w1 = "written (config_file name) (config\<lparr>cfg_subnets := rest\<rparr>)
               (run sh (''ip netns delete '' @ sn_namespace (snd entry)) False w)"
  have step: "delete_subnet sh name (fst entry) w = (Returned True, ?w1)"
    using Cons.prems(2) Cons.prems(1) by (rule delete_subnet_head)
  have d: "distinct (map fst rest)"
    using Cons.prems(1) by simp
  have f: "files ?w1 (config_file name) = Some (config\<lparr>cfg_subnets := rest\<rparr>)"
    by simp
  from Cons.IH [OF d f] obtain w' where
    w': "delete_subnets sh name (map fst rest) ?w1 = (None, w')"
        "events w' = events ?w1 @ deletion_events (config_file name) config rest"
        "files w' = (files ?w1)(config_file name \<mapsto> config\<lparr>cfg_subnets := []\<rparr>)"
    by blast
  have "delete_subnets sh name (map fst (entry # rest)) w = (None, w')"
    by (simp only: list.map delete_subnets.simps step prod.case outcome.case w'(1))
  then show ?case
    using w'(2,3) by (intro exI [of _ w']) auto
qed

text \<open>
  C6. For a VPC with a record in the store, \<^verbatim>\<open>delete_vpc\<close> returns True and what it does
  is, in this order: for every subnet of the record the deletion of its namespace and the
  write of the record without it; then the bridge is brought down and deleted; and last of
  all the record is removed from the store.
\<close>

theorem delete_vpc_order:
  assumes "files w (config_file name) = Some config"
    and "distinct (map fst (cfg_subnets config))"
  shows "fst (delete_vpc sh name w) = Returned True
       \<and> events (snd (delete_vpc sh name w)) =
           events w @ deletion_events (config_file name) config (cfg_subnets config) @
           [Cmd (''ip link set '' @ cfg_bridge config @ '' down''),
            Cmd (''ip link delete '' @ cfg_bridge config @ '' type bridge''),
            Unlink (config_file name)]
       \<and> files (snd (delete_vpc sh name w)) = (files w)(config_file name := None)"
proof -
  have c: "files w (config_file name) = Some (config\<lparr>cfg_subnets := cfg_subnets config\<rparr>)"
    using assms(1) by simp
  from delete_subnets_trace [OF assms(2) c, of sh] obtain w1 where
    w1: "delete_subnets sh name (map fst (cfg_subnets config)) w = (None, w1)"
        "events w1 = events w @ deletion_events (config_file name) config (cfg_subnets config)"
        "files w1 = (files w)(config_file name \<mapsto> config\<lparr>cfg_subnets := []\<rparr>)"
    by blast
  let ?w3 = "run sh (''ip link delete '' @ cfg_bridge config @ '' type bridge'') False
               (run sh (''ip link set '' @ cfg_bridge config @ '' down'') False w1)"
  have "files ?w3 (config_file name) = Some (config\<lparr>cfg_subnets := []\<rparr>)"
    by (simp add: w1(3))
  then have u: "unlink (config_file name) ?w3 = Inr (removed (config_file name) ?w3)"
    by (rule unlink_present)
  have "delete_vpc sh name w = (Returned True, removed (config_file name) ?w3)"
    using assms(1) u by (simp add: delete_vpc_def load_config_present w1(1) Let_def)
  then show ?thesis
    by (simp add: w1(2,3))
qed

theorem delete_vpc_order_witness:
  "files web_host (config_file ''test'') = Some web_config
   \<and> distinct (map fst (cfg_subnets web_config))
   \<and> events (snd (delete_vpc failing_shell ''test'' web_host)) =
       [Cmd ''ip netns delete ns-test-web'',
        Write ''/tmp/vpc_configs/test.json'' (web_config\<lparr>cfg_subnets := [(''db'', db_info)]\<rparr>),
        Cmd ''ip netns delete ns-test-db'',
        Write ''/tmp/vpc_configs/test.json'' (web_config\<lparr>cfg_subnets := []\<rparr>),
        Cmd ''ip link set br-test down'',
        Cmd ''ip link delete br-test type bridge'',
        Unlink ''/tmp/vpc_configs/test.json'']"
proof -
  have f: "files web_host (config_file ''test'') = Some web_config"
    by (simp add: web_host_def)
  have d: "distinct (map fst (cfg_subnets web_config))"
    by (simp add: web_config_def)
  have e: "events web_host = []"
    by (simp add: web_host_def)
  show ?thesis
    using f d delete_vpc_order [OF f d, of failing_shell]
    by (simp add: e web_config_def test_config_def web_info_def db_info_def
          config_file_examples(1))
qed

lemma length_delete_distinct:
  "distinct (map fst xs) \<Longrightarrow> k \<in> fst ` set xs \<Longrightarrow>
     Suc (length (AList.delete k xs)) = length xs"
proof (induction xs)
  case Nil
  then show ?case by simp
next
  case (Cons x xs)
  obtain k' v where x: "x = (k', v)" by (cases x)
  show ?case
  proof (cases "k' = k")
    case True
    then have "k \<notin> fst ` set xs"
      using Cons.prems(1) x by auto
    then show ?thesis
      using True x by simp
  next
    case False
    then have "k \<in> fst ` set xs"
      using Cons.prems(2) x by auto
    then show ?thesis
      using Cons.IH Cons.prems(1) False x by simp
  qed
qed

text \<open>
  C10. A \<^verbatim>\<open>delete_subnet\<close> that returns True changes the store at the record of its VPC
  only; the new record has the name, CIDR and bridge of the old one, and its subnets are the
  old subnets without the entry of the deleted name: exactly one entry fewer, every other
  entry unchanged and in place.
\<close>

theorem delete_subnet_frame:
  assumes "files w (config_file vpc_name) = Some config"
    and "distinct (map fst (cfg_subnets config))"
    and "delete_subnet sh vpc_name subnet_name w = (Returned True, w')"
  shows "\<exists>config'. files w' = (files w)(config_file vpc_name \<mapsto> config')
           \<and> cfg_name config' = cfg_name config
           \<and> cfg_cidr config' = cfg_cidr config
           \<and> cfg_bridge config' = cfg_bridge config
           \<and> cfg_subnets config' =
               filter (\<lambda>entry. fst entry \<noteq> subnet_name) (cfg_subnets config)
           \<and> Suc (length (cfg_subnets config')) = length (cfg_subnets config)
           \<and> map_of (cfg_subnets config') = (map_of (cfg_subnets config))(subnet_name := None)"
proof -
  obtain info where info: "map_of (cfg_subnets config) subnet_name = Some info"
    using assms(1,3)
    by (cases "map_of (cfg_subnets config) subnet_name")
       (simp_all add: delete_subnet_def load_config_present)
  let ?config' = "config\<lparr>cfg_subnets := AList.delete subnet_name (cfg_subnets config)\<rparr>"
  have w': "w' = written (config_file vpc_name) ?config'
                   (run sh (''ip netns delete '' @ sn_namespace info) False w)"
    using assms(1,3) info
    by (simp add: delete_subnet_def load_config_present write_config_present Let_def)
  have flt: "AList.delete subnet_name (cfg_subnets config) =
               filter (\<lambda>entry. fst entry \<noteq> subnet_name) (cfg_subnets config)"
    by (simp add: AList.delete_eq case_prod_beta' eq_commute)
  have mem: "subnet_name \<in> fst ` set (cfg_subnets config)"
    using info by (metis map_of_eq_None_iff option.distinct(1))
  have len: "Suc (length (AList.delete subnet_name (cfg_subnets config))) =
               length (cfg_subnets config)"
    using assms(2) mem by (rule length_delete_distinct)
  show ?thesis
    by (rule exI [of _ ?config']) (simp add: w' flt [symmetric] len AList.delete_conv')
qed

theorem delete_subnet_frame_witness:
  "files web_host (config_file ''test'') = Some web_config
   \<and> distinct (map fst (cfg_subnets web_config))
   \<and> fst (delete_subnet failing_shell ''test'' ''web'' web_host) = Returned True
   \<and> (\<exists>config'. files (snd (delete_subnet failing_shell ''test'' ''web'' web_host)) =
                    [config_file ''test'' \<mapsto> config']
          \<and> cfg_name config' = ''test'' \<and> cfg_cidr config' = ''10.1.0.0/16''
          \<and> cfg_bridge config' = ''br-test'' \<and> cfg_subnets config' = [(''db'', db_info)])"
proof -
  have f: "files web_host (config_file ''test'') = Some web_config"
    by (simp add: web_host_def)
  have d: "distinct (map fst (cfg_subnets web_config))"
    by (simp add: web_config_def)
  have r: "fst (delete_subnet failing_shell ''test'' ''web'' web_host) = Returned True"
    by (simp add: delete_subnet_def load_config_present [OF f] write_config_present f
          web_config_def Let_def)
  then have s: "delete_subnet failing_shell ''test'' ''web'' web_host =
                  (Returned True, snd (delete_subnet failing_shell ''test'' ''web'' web_host))"
    by (simp add: prod_eq_iff)
  from delete_subnet_frame [OF f d s] obtain config' where
    c: "files (snd (delete_subnet failing_shell ''test'' ''web'' web_host)) =
          (files web_host)(config_file ''test'' \<mapsto> config')"
       "cfg_name config' = cfg_name web_config"
       "cfg_cidr config' = cfg_cidr web_config"
       "cfg_bridge config' = cfg_bridge web_config"
       "cfg_subnets config' = filter (\<lambda>entry. fst entry \<noteq> ''web'') (cfg_subnets web_config)"
    by blast
  have "files (snd (delete_subnet failing_shell ''test'' ''web'' web_host)) =
          [config_file ''test'' \<mapsto> config']
        \<and> cfg_name config' = ''test'' \<and> cfg_cidr config' = ''10.1.0.0/16''
        \<and> cfg_bridge config' = ''br-test'' \<and> cfg_subnets config' = [(''db'', db_info)]"
    using c by (simp add: web_host_def web_config_def test_config_def)
  then show ?thesis
    using f d r by blast
qed

section \<open>Operations on a missing VPC or subnet\<close>

text \<open>
  C5. On a host whose store directory is in place, for a plain VPC name: when the VPC has
  no record in the store, \<^verbatim>\<open>create_subnet\<close>, \<^verbatim>\<open>delete_subnet\<close>, \<^verbatim>\<open>setup_nat\<close>,
  \<^verbatim>\<open>apply_firewall\<close> and \<^verbatim>\<open>exec_command\<close> return False and leave the host as it was: no
  command is run and nothing is written. When the VPC has a record that lacks the subnet
  name, the same holds of \<^verbatim>\<open>delete_subnet\<close>, \<^verbatim>\<open>setup_nat\<close>, \<^verbatim>\<open>apply_firewall\<close> and
  \<^verbatim>\<open>exec_command\<close>.
\<close>

theorem not_found_no_effect:
  assumes "store_ready w" and "plain_name vpc_name"
    and "files w (config_file vpc_name) = None
         \<or> (\<exists>config. files w (config_file vpc_name) = Some config
                \<and> map_of (cfg_subnets config) subnet_name = None)"
  shows "delete_subnet sh vpc_name subnet_name w = (Returned False, w)
       \<and> setup_nat sh vpc_name subnet_name host_interface w = (Returned False, w)
       \<and> apply_firewall fmt rf sh vpc_name subnet_name rules_file w = (Returned False, w)
       \<and> exec_command sh vpc_name subnet_name command w = (Returned False, w)
       \<and> (files w (config_file vpc_name) = None \<longrightarrow>
            create_subnet sh vpc_name subnet_name cidr subnet_type w = (Returned False, w))"
proof -
  have reach: "status_of w (config_file vpc_name) = Reachable"
    using assms(1,2) by (simp add: store_ready_def)
  from assms(3) show ?thesis
  proof
    assume none: "files w (config_file vpc_name) = None"
    then have "load_config (config_file vpc_name) w = Inr None"
      using reach by (rule load_config_absent)
    then show ?thesis
      by (simp add: delete_subnet_def setup_nat_def apply_firewall_def exec_command_def
            create_subnet_def)
  next
    assume "\<exists>config. files w (config_file vpc_name) = Some config
              \<and> map_of (cfg_subnets config) subnet_name = None"
    then obtain config where c: "files w (config_file vpc_name) = Some config"
      and m: "map_of (cfg_subnets config) subnet_name = None"
      by blast
    have "load_config (config_file vpc_name) w = Inr (Some config)"
      using c by (rule load_config_present)
    then show ?thesis
      using c m
      by (simp add: delete_subnet_def setup_nat_def apply_firewall_def exec_command_def)
  qed
qed

theorem not_found_no_effect_witness:
  "store_ready web_host \<and> plain_name ''prod'' \<and> plain_name ''test''
   \<and> files web_host (config_file ''prod'') = None
   \<and> create_subnet failing_shell ''prod'' ''web'' ''10.1.1.0/24'' ''public'' web_host
       = (Returned False, web_host)
   \<and> delete_subnet failing_shell ''prod'' ''web'' web_host = (Returned False, web_host)
   \<and> setup_nat failing_shell ''prod'' ''web'' ''eth0'' web_host = (Returned False, web_host)
   \<and> apply_firewall (\<lambda>j. ''80'') (\<lambda>p. Absent) failing_shell ''prod'' ''web'' None web_host
       = (Returned False, web_host)
   \<and> exec_command failing_shell ''prod'' ''web'' ''true'' web_host = (Returned False, web_host)
   \<and> map_of (cfg_subnets web_config) ''cache'' = None
   \<and> delete_subnet failing_shell ''test'' ''cache'' web_host = (Returned False, web_host)
   \<and> setup_nat failing_shell ''test'' ''cache'' ''eth0'' web_host = (Returned False, web_host)
   \<and> exec_command failing_shell ''test'' ''cache'' ''true'' web_host = (Returned False, web_host)"
proof -
  have a: "files web_host (config_file ''prod'') = None"
    by (simp add: web_host_def config_file_examples(1) config_file_plain plain_name_samples)
  have m: "map_of (cfg_subnets web_config) ''cache'' = None"
    by (simp add: web_config_def)
  have b: "files web_host (config_file ''test'') = None
           \<or> (\<exists>config. files web_host (config_file ''test'') = Some config
                  \<and> map_of (cfg_subnets config) ''cache'' = None)"
    using m by (simp add: web_host_def)
  show ?thesis
    using a m store_ready_samples(3) plain_name_samples
      not_found_no_effect [OF store_ready_samples(3) plain_name_samples(2) disjI1 [OF a],
        of failing_shell "''web''"  "''eth0''"
        "\<lambda>j. ''80''" "\<lambda>p. Absent" None "''true''" "''10.1.1.0/24''" "''public''"]
      not_found_no_effect [OF store_ready_samples(3) plain_name_samples(1) b,
        of failing_shell "''eth0''"
        "\<lambda>j. ''80''" "\<lambda>p. Absent" None "''true''" "''10.1.1.0/24''" "''public''"]
    by simp
qed

text \<open>
  For \<^verbatim>\<open>create_subnet\<close> a subnet name that the record of an existing VPC lacks is the
  normal case, not an error: the call returns True after nine commands and one write. And
  a VPC name that is too long for a file name has no record, yet the call does not return
  False: \<^verbatim>\<open>Path.exists()\<close> (CPython 3.11) raises the OSError of the kernel.
\<close>

theorem create_subnet_new_name_counterexample:
  "files test_host (config_file ''test'') = Some test_config
   \<and> map_of (cfg_subnets test_config) ''web'' = None
   \<and> fst (create_subnet failing_shell ''test'' ''web'' ''10.1.1.0/24'' ''public'' test_host)
       = Returned True
   \<and> create_subnet failing_shell ''test'' ''web'' ''10.1.1.0/24'' ''public'' test_host
       \<noteq> (Returned False, test_host)
   \<and> length (events (snd (create_subnet failing_shell ''test'' ''web'' ''10.1.1.0/24''
                             ''public'' test_host))) = 10
   \<and> files web_host (config_file long_name) = None
   \<and> fst (delete_subnet failing_shell long_name ''web'' web_host) = Raised OSError"
proof -
  have f: "files test_host (config_file ''test'') = Some test_config"
    by (simp add: test_host_def)
  have r: "fst (create_subnet failing_shell ''test'' ''web'' ''10.1.1.0/24'' ''public'' test_host)
             = Returned True"
    using f by (rule create_subnet_found(1))
  then have n: "create_subnet failing_shell ''test'' ''web'' ''10.1.1.0/24'' ''public'' test_host
                  \<noteq> (Returned False, test_host)"
    by (auto simp add: prod_eq_iff)
  have m: "map_of (cfg_subnets test_config) ''web'' = None"
    by (simp add: test_config_def)
  have e: "events test_host = []"
    by (simp add: test_host_def)
  have l: "length (events (snd (create_subnet failing_shell ''test'' ''web'' ''10.1.1.0/24''
                                  ''public'' test_host))) = 10"
    by (simp add: create_subnet_found(2) [OF f] e)
  have a: "files web_host (config_file long_name) = None"
    by code_simp
  have x: "fst (delete_subnet failing_shell long_name ''web'' web_host) = Raised OSError"
    by code_simp
  show ?thesis
    using f m r n l a x by simp
qed

section \<open>Applying the firewall\<close>

lemma load_rules_unreadable: "rf path = Unreadable \<Longrightarrow> load_rules fmt rf ns_name path = Inl OSError"
  and load_rules_malformed: "rf path = Malformed \<Longrightarrow> load_rules fmt rf ns_name path = Inl ValueError"
  by (simp_all add: load_rules_def)

text \<open>
  C7. For an existing VPC and subnet: when the rules file is named, exists, and reading it
  raises, \<^verbatim>\<open>apply_firewall\<close> returns False and leaves the host as it was; no command has
  been run at that point, so there is nothing to roll back. When \<^verbatim>\<open>apply_firewall\<close> returns
  True, the commands it ran are the flush, the three default policies, the
  established/related rule and the loopback rule, in that order, then the custom rules, then
  the two fixed rules.
\<close>

theorem apply_firewall_rules_file:
  assumes "files w (config_file vpc_name) = Some config"
    and "map_of (cfg_subnets config) subnet_name = Some info"
  shows "(\<forall>path e. rules_file = Some path \<and> path \<noteq> [] \<and> rf path \<noteq> Absent
              \<and> load_rules fmt rf (sn_namespace info) path = Inl e
            \<longrightarrow> apply_firewall fmt rf sh vpc_name subnet_name rules_file w = (Returned False, w))
       \<and> (fst (apply_firewall fmt rf sh vpc_name subnet_name rules_file w) = Returned True \<longrightarrow>
            (\<exists>custom. events (snd (apply_firewall fmt rf sh vpc_name subnet_name rules_file w)) =
               events w @ map Cmd (firewall_base_cmds (sn_namespace info)) @ map Cmd custom
                 @ map Cmd (firewall_default_cmds (sn_namespace info))))"
  using assms
  by (auto simp add: apply_firewall_def load_config_present custom_rules_def Let_def
        split: sum.splits option.splits)

theorem apply_firewall_rules_file_witness:
  "files web_host (config_file ''test'') = Some web_config
   \<and> map_of (cfg_subnets web_config) ''web'' = Some web_info
   \<and> load_rules (\<lambda>j. ''80'') (\<lambda>p. Malformed) (sn_namespace web_info) ''rules.json'' = Inl ValueError
   \<and> apply_firewall (\<lambda>j. ''80'') (\<lambda>p. Malformed) failing_shell ''test'' ''web''
        (Some ''rules.json'') web_host = (Returned False, web_host)"
proof -
  have f: "files web_host (config_file ''test'') = Some web_config"
    by (simp add: web_host_def)
  have m: "map_of (cfg_subnets web_config) ''web'' = Some web_info"
    by (simp add: web_config_def)
  have l: "load_rules (\<lambda>j. ''80'') (\<lambda>p. Malformed) (sn_namespace web_info) ''rules.json''
             = Inl ValueError"
    by (simp add: load_rules_malformed)
  show ?thesis
    using f m l
      apply_firewall_rules_file [OF f m, of "Some ''rules.json''" "\<lambda>p. Malformed" "\<lambda>j. ''80''"
        failing_shell]
    by simp
qed

text \<open>
  The specification has the flush, the default policies and the two allow rules applied when the
  rules file fails to parse. On a host with VPC \<open>test\<close> and subnet \<open>web\<close>, with a rules
  file that exists and does not parse, the call returns False and has run no command at
  all: none of the six base commands has been issued.
\<close>

theorem apply_firewall_parse_failure_counterexample:
  "load_rules (\<lambda>j. ''80'') (\<lambda>p. Malformed) ''ns-test-web'' ''rules.json'' = Inl ValueError
   \<and> fst (apply_firewall (\<lambda>j. ''80'') (\<lambda>p. Malformed) failing_shell ''test'' ''web''
            (Some ''rules.json'') web_host) = Returned False
   \<and> events (snd (apply_firewall (\<lambda>j. ''80'') (\<lambda>p. Malformed) failing_shell ''test'' ''web''
                     (Some ''rules.json'') web_host)) = []
   \<and> \<not> list_all
          (\<lambda>c. Cmd c \<in> set (events (snd (apply_firewall (\<lambda>j. ''80'') (\<lambda>p. Malformed)
                                               failing_shell ''test'' ''web''
                                               (Some ''rules.json'') web_host))))
          (firewall_base_cmds ''ns-test-web'')"
  by code_simp

section \<open>Properties of the validator\<close>

subsection \<open>Splitting\<close>

lemma py_split_Cons:
  "py_split sep s = p # ps \<Longrightarrow>
     sep \<notin> set p
     \<and> (if ps = [] then s = p else \<exists>rest. s = p @ sep # rest \<and> py_split sep rest = ps)"
proof (induction s arbitrary: p ps)
  case Nil
  then show ?case by simp
next
  case (Cons c cs)
  show ?case
  proof (cases "c = sep")
    case True
    then show ?thesis using Cons.prems by auto
  next
    case False
    obtain t ts where split: "py_split sep cs = t # ts"
      by (cases "py_split sep cs") simp_all
    from Cons.IH [OF split] Cons.prems False split show ?thesis
      by (auto split: if_splits)
  qed
qed

lemma py_split_two:
  assumes "py_split sep s = [p, q]"
  shows "s = p @ sep # q \<and> sep \<notin> set p \<and> sep \<notin> set q"
proof -
  from py_split_Cons [OF assms] obtain rest where
    1: "sep \<notin> set p" "s = p @ sep # rest" "py_split sep rest = [q]"
    by auto
  from py_split_Cons [OF 1(3)] have "sep \<notin> set q" "rest = q" by auto
  with 1 show ?thesis by simp
qed

lemma py_split_four:
  assumes "py_split sep s = [a, b, c, d]"
  shows "s = a @ sep # b @ sep # c @ sep # d"
proof -
  from py_split_Cons [OF assms] obtain r1 where
    1: "s = a @ sep # r1" "py_split sep r1 = [b, c, d]" by auto
  from py_split_Cons [OF 1(2)] obtain r2 where
    2: "r1 = b @ sep # r2" "py_split sep r2 = [c, d]" by auto
  from py_split_two [OF 2(2)] have "r2 = c @ sep # d" by simp
  with 1 2 show ?thesis by simp
qed

subsection \<open>The characters of an integer literal\<close>

lemma int_char_digit: "py_isdigit c \<Longrightarrow> int_char c"
  and int_char_space: "py_isspace c \<Longrightarrow> int_char c"
  and int_char_underscore: "int_char CHR ''_''"
  and int_char_plus: "int_char CHR ''+''"
  and int_char_minus: "int_char CHR ''-''"
  by (simp_all add: int_char_def)

lemma int_char_dot: "\<not> int_char CHR ''.''"
  and int_char_slash: "\<not> int_char CHR ''/''"
  by (simp_all add: int_char_def py_isspace_def py_isdigit_def)

lemma py_digits_chars:
  "py_digits acc s = Inr (v, rest) \<Longrightarrow> \<exists>pre. s = pre @ rest \<and> list_all int_char pre"
proof (induction acc s rule: py_digits.induct)
  case (1 acc)
  then show ?case by simp
next
  case (2 acc c cs)
  show ?case
  proof (cases "py_isdigit c")
    case True
    with 2 obtain pre where "cs = pre @ rest" "list_all int_char pre" by auto
    with True show ?thesis
      by (intro exI [of _ "c # pre"]) (simp add: int_char_digit)
  next
    case False
    show ?thesis
    proof (cases "c = CHR ''_''")
      case u: True
      with False "2.prems" obtain d ds where cs: "cs = d # ds" and d: "py_isdigit d"
        and r: "py_digits (10 * acc + digit_value d) ds = Inr (v, rest)"
        by (auto split: list.splits if_splits)
      from "2.IH"(2) [OF False u cs d r] obtain pre where "ds = pre @ rest" "list_all int_char pre"
        by auto
      with u cs d show ?thesis
        by (intro exI [of _ "c # d # pre"]) (simp add: int_char_digit int_char_underscore)
    next
      case n: False
      with False "2.prems" show ?thesis by auto
    qed
  qed
qed

lemma dropWhile_Nil_all: "dropWhile P xs = [] \<Longrightarrow> list_all P xs"
  by (simp add: list_all_iff dropWhile_eq_Nil_conv)

lemma py_sign_chars:
  "py_sign s = (neg, body) \<Longrightarrow> list_all int_char body \<Longrightarrow> list_all int_char s"
  by (auto simp add: py_sign_def int_char_plus int_char_minus split: list.splits if_splits)

lemma list_all_dropWhile:
  "list_all Q (dropWhile P xs) \<Longrightarrow> (\<And>x. P x \<Longrightarrow> Q x) \<Longrightarrow> list_all Q xs"
  by (induction xs) (auto split: if_splits)

lemma py_int_chars:
  assumes "py_int t = Inr v"
  shows "list_all int_char t"
proof -
  obtain neg body where sg: "py_sign (dropWhile py_isspace t) = (neg, body)"
    by (cases "py_sign (dropWhile py_isspace t)")
  from assms sg obtain d ds v' rest where body: "body = d # ds" and d: "py_isdigit d"
    and dg: "py_digits (digit_value d) ds = Inr (v', rest)"
    and sp: "dropWhile py_isspace rest = []"
    by (auto simp add: py_int_def split: list.splits if_splits sum.splits prod.splits)
  from py_digits_chars [OF dg] obtain pre where pre: "ds = pre @ rest" "list_all int_char pre"
    by auto
  have "list_all py_isspace rest" using sp by (rule dropWhile_Nil_all)
  then have "list_all int_char rest"
    by (simp add: list_all_iff int_char_space)
  with pre d body have "list_all int_char body"
    by (simp add: int_char_digit)
  with sg have "list_all int_char (dropWhile py_isspace t)"
    by (rule py_sign_chars)
  then show ?thesis
    by (rule list_all_dropWhile) (rule int_char_space)
qed

lemma int_token_no_sep:
  assumes "int_token hi t"
  shows "CHR ''.'' \<notin> set t \<and> CHR ''/'' \<notin> set t"
proof -
  from assms obtain v where "py_int t = Inr v"
    by (auto simp add: int_token_def split: sum.splits)
  then have "list_all int_char t" by (rule py_int_chars)
  then show ?thesis
    using int_char_dot int_char_slash by (auto simp add: list_all_iff)
qed

subsection \<open>Sample literals\<close>

text \<open>What \<^verbatim>\<open>int()\<close> accepts and rejects, on the literals that decide the cases above.\<close>

lemma py_int_accepts:
  "py_int ''10'' = Inr 10" "py_int '' 10'' = Inr 10" "py_int ''+8'' = Inr 8"
  "py_int ''-0'' = Inr 0" "py_int ''1_0'' = Inr 10" "py_int ''007'' = Inr 7"
  "py_int ''-1'' = Inr (- 1)" "py_int ''256'' = Inr 256"
  by code_simp+

lemma py_int_rejects:
  "py_int [] = Inl ValueError" "py_int '' '' = Inl ValueError" "py_int ''+'' = Inl ValueError"
  "py_int ''- 1'' = Inl ValueError" "py_int ''_1'' = Inl ValueError"
  "py_int ''1_'' = Inl ValueError" "py_int ''1__0'' = Inl ValueError"
  "py_int ''1 0'' = Inl ValueError" "py_int ''x'' = Inl ValueError"
  "py_int ''0x10'' = Inl ValueError" "py_int ''1.0'' = Inl ValueError"
  by code_simp+

lemma py_split_examples:
  "py_split CHR ''/'' [] = [[]]"
  "py_split CHR ''/'' ''a//b'' = [''a'', [], ''b'']"
  "py_split CHR ''/'' ''/'' = [[], []]"
  "py_split CHR ''.'' ''10.0.1.0'' = [''10'', ''0'', ''1'', ''0'']"
  by code_simp+

subsection \<open>Plain decimal tokens\<close>

lemma py_digits_decimal:
  "list_all py_isdigit ds \<Longrightarrow>
     py_digits acc ds = Inr (foldl (\<lambda>a c. 10 * a + digit_value c) acc ds, [])"
  by (induction ds arbitrary: acc) simp_all

lemma digit_not_space: "py_isdigit c \<Longrightarrow> \<not> py_isspace c"
  and digit_not_sign: "py_isdigit c \<Longrightarrow> c \<noteq> CHR ''+'' \<and> c \<noteq> CHR ''-''"
  by (auto simp add: py_isdigit_def py_isspace_def Let_def)

lemma py_int_decimal:
  assumes "t \<noteq> []" and "list_all py_isdigit t"
  shows "py_int t = Inr (decimal_value t)"
proof -
  from assms obtain d ds where t: "t = d # ds" and d: "py_isdigit d" and ds: "list_all py_isdigit ds"
    by (cases t) simp_all
  have "dropWhile py_isspace t = t"
    using t d by (simp add: digit_not_space)
  moreover have "py_sign t = (False, t)"
    using t digit_not_sign [OF d] by (simp add: py_sign_def)
  moreover have "decimal_value t = foldl (\<lambda>a c. 10 * a + digit_value c) (digit_value d) ds"
    using t by (simp add: decimal_value_def)
  ultimately show ?thesis
    using t d py_digits_decimal [OF ds, of "digit_value d"] by (simp add: py_int_def)
qed

lemma decimal_token_int_token: "decimal_token hi t \<Longrightarrow> int_token hi t"
  by (simp add: decimal_token_def int_token_def py_int_decimal)

lemma spec_form_imp_python_form: "spec_cidr_form s \<Longrightarrow> python_cidr_form s"
  unfolding spec_cidr_form_def python_cidr_form_def
  by (blast intro: decimal_token_int_token)

lemma spec_form_chars:
  assumes "spec_cidr_form s"
  shows "list_all (\<lambda>c. py_isdigit c \<or> c = CHR ''.'' \<or> c = CHR ''/'') s"
  using assms unfolding spec_cidr_form_def decimal_token_def
  by (auto simp add: list_all_iff)

subsection \<open>What the validator accepts\<close>

lemma all_octets_four:
  "all_octets [a, b, c, d] = Inr True \<longleftrightarrow>
     int_token 255 a \<and> int_token 255 b \<and> int_token 255 c \<and> int_token 255 d"
  by (auto simp add: int_token_def split: sum.splits if_splits)

lemma length_four: "length xs = 4 \<Longrightarrow> \<exists>a b c d. xs = [a, b, c, d]"
  by (auto simp add: eval_nat_numeral length_Suc_conv)

lemma validate_cidr_imp_form:
  assumes "validate_cidr s"
  shows "python_cidr_form s"
proof -
  from assms obtain ip m where sp: "py_split CHR ''/'' s = [ip, m]"
    by (auto simp add: validate_cidr_def validate_cidr_try_def split: list.splits sum.splits)
  from assms sp obtain vm where vm: "py_int m = Inr vm"
    by (auto simp add: validate_cidr_def validate_cidr_try_def split: sum.splits)
  from assms sp vm have len: "length (py_split CHR ''.'' ip) = 4"
    by (auto simp add: validate_cidr_def validate_cidr_try_def Let_def split: sum.splits if_splits)
  then obtain a b c d where parts: "py_split CHR ''.'' ip = [a, b, c, d]"
    using length_four by blast
  from assms sp vm parts have oct: "all_octets [a, b, c, d] = Inr True"
    and rng: "0 \<le> vm \<and> vm \<le> 32"
    by (auto simp add: validate_cidr_def validate_cidr_try_def Let_def split: sum.splits if_splits)
  have "s = ip @ CHR ''/'' # m" using py_split_two [OF sp] by simp
  moreover have "ip = a @ CHR ''.'' # b @ CHR ''.'' # c @ CHR ''.'' # d"
    using parts by (rule py_split_four)
  moreover have "int_token 32 m" using vm rng by (simp add: int_token_def)
  ultimately show ?thesis
    using oct unfolding python_cidr_form_def all_octets_four
    by (intro exI [of _ a] exI [of _ b] exI [of _ c] exI [of _ d] exI [of _ m]) simp
qed

lemma form_imp_validate_cidr:
  assumes "python_cidr_form s"
  shows "validate_cidr s"
proof -
  from assms obtain a b c d m where s: "s = a @ ''.'' @ b @ ''.'' @ c @ ''.'' @ d @ ''/'' @ m"
    and t: "int_token 255 a" "int_token 255 b" "int_token 255 c" "int_token 255 d"
    and tm: "int_token 32 m"
    unfolding python_cidr_form_def by blast
  let ?ip = "a @ CHR ''.'' # b @ CHR ''.'' # c @ CHR ''.'' # d"
  note ns = t [THEN int_token_no_sep] tm [THEN int_token_no_sep]
  have "CHR ''/'' \<notin> set ?ip" using ns by simp
  then have "py_split CHR ''/'' (?ip @ CHR ''/'' # m) = ?ip # py_split CHR ''/'' m"
    by (rule py_split_append)
  then have sp: "py_split CHR ''/'' s = [?ip, m]"
    using ns s by (simp add: py_split_single)
  have parts: "py_split CHR ''.'' ?ip = [a, b, c, d]"
    using ns by (simp add: py_split_append py_split_single)
  have oct: "all_octets [a, b, c, d] = Inr True"
    using t by (simp only: all_octets_four)
  from tm obtain vm where vm: "py_int m = Inr vm" "0 \<le> vm" "vm \<le> 32"
    by (auto simp add: int_token_def split: sum.splits)
  show ?thesis
    unfolding validate_cidr_def validate_cidr_try_def sp
    by (simp add: vm parts oct del: all_octets.simps)
qed

text \<open>
  C4. For an ASCII string of at most 4300 characters: if it has the specification's form
  (four decimal octets in [0,255], a slash, a decimal mask in [0,32]) then \<^verbatim>\<open>validate_cidr\<close>
  returns True; and \<^verbatim>\<open>validate_cidr\<close> returns True exactly for the strings
  \<open>a.b.c.d/m\<close> whose five tokens \<^verbatim>\<open>int()\<close> parses to a value in range, and False for every
  other string.
\<close>

theorem validate_cidr_accepts:
  assumes "list_all (\<lambda>c. of_char c < (128 :: nat)) s" and "length s \<le> 4300"
  shows "(spec_cidr_form s \<longrightarrow> validate_cidr s) \<and> (validate_cidr s \<longleftrightarrow> python_cidr_form s)"
  using validate_cidr_imp_form form_imp_validate_cidr spec_form_imp_python_form by blast

theorem validate_cidr_accepts_witness:
  "list_all (\<lambda>c. of_char c < (128 :: nat)) ''10.1.0.0/16'' \<and> length ''10.1.0.0/16'' \<le> 4300
   \<and> validate_cidr ''10.1.0.0/16'' \<and> python_cidr_form ''10.1.0.0/16''"
proof -
  have a: "list_all (\<lambda>c. of_char c < (128 :: nat)) ''10.1.0.0/16''" by simp
  have l: "length ''10.1.0.0/16'' \<le> 4300" by simp
  have v: "validate_cidr ''10.1.0.0/16''" by code_simp
  show ?thesis
    using a l v validate_cidr_accepts [OF a l] by simp
qed

text \<open>
  Strings that are not of the specification's form and are accepted: an underscore inside
  an octet; a leading space and a signed mask.
\<close>

theorem validate_cidr_lenient_counterexample:
  "validate_cidr ''1_0.0.0.0/8'' \<and> \<not> spec_cidr_form ''1_0.0.0.0/8''
   \<and> validate_cidr '' 10.0.0.0/+8'' \<and> \<not> spec_cidr_form '' 10.0.0.0/+8''"
proof -
  have "validate_cidr ''1_0.0.0.0/8''" by code_simp
  moreover have "validate_cidr '' 10.0.0.0/+8''" by code_simp
  moreover have "\<not> spec_cidr_form ''1_0.0.0.0/8''"
    using spec_form_chars [of "''1_0.0.0.0/8''"] by (auto simp add: py_isdigit_def)
  moreover have "\<not> spec_cidr_form '' 10.0.0.0/+8''"
    using spec_form_chars [of "'' 10.0.0.0/+8''"] by (auto simp add: py_isdigit_def)
  ultimately show ?thesis by simp
qed

subsection \<open>The validator never raises\<close>

lemma py_digits_exn: "py_digits acc s = Inl e \<Longrightarrow> e = ValueError"
  by (induction acc s rule: py_digits.induct) (auto split: if_splits list.splits)

lemma py_int_exn: "py_int t = Inl e \<Longrightarrow> e = ValueError"
  by (auto simp add: py_int_def split: prod.splits list.splits if_splits sum.splits
        dest: py_digits_exn)

lemma all_octets_exn: "all_octets ps = Inl e \<Longrightarrow> e = ValueError"
  by (induction ps) (auto split: sum.splits if_splits dest: py_int_exn)

lemma validate_cidr_try_exn: "validate_cidr_try s = Inl e \<Longrightarrow> e = ValueError"
  by (auto simp add: validate_cidr_try_def Let_def split: list.splits sum.splits if_splits
        dest: py_int_exn all_octets_exn)

text \<open>
  C9. For every string, the body of \<^verbatim>\<open>validate_cidr\<close> either returns a boolean, which is
  the result, or raises ValueError, which the handler turns into False: \<^verbatim>\<open>validate_cidr\<close>
  always returns a boolean. All functions involved are total recursive functions, so the
  call terminates.
\<close>

theorem validate_cidr_total:
  "(\<exists>b. validate_cidr_try s = Inr b \<and> validate_cidr s = b)
   \<or> (validate_cidr_try s = Inl ValueError \<and> validate_cidr s = False)"
proof (cases "validate_cidr_try s")
  case (Inl e)
  then have "e = ValueError" by (rule validate_cidr_try_exn)
  with Inl show ?thesis by (simp add: validate_cidr_def)
next
  case (Inr b)
  then show ?thesis by (simp add: validate_cidr_def)
qed

theorem validate_cidr_total_witness:
  "validate_cidr_try ''10.0.0.0'' = Inl ValueError \<and> validate_cidr ''10.0.0.0'' = False
   \<and> validate_cidr_try ''10.0.x.0/8'' = Inl ValueError \<and> validate_cidr ''10.0.x.0/8'' = False
   \<and> validate_cidr_try ''10.0.0/8'' = Inr False \<and> validate_cidr ''10.0.0/8'' = False"
proof -
  have 1: "validate_cidr_try ''10.0.0.0'' = Inl ValueError" by code_simp
  have 2: "validate_cidr_try ''10.0.x.0/8'' = Inl ValueError" by code_simp
  have 3: "validate_cidr_try ''10.0.0/8'' = Inr False" by code_simp
  show ?thesis
    using 1 2 3 validate_cidr_total [of "''10.0.0.0''"] validate_cidr_total [of "''10.0.x.0/8''"]
      validate_cidr_total [of "''10.0.0/8''"]
    by simp
qed

end
